theory Spec2Isabelle
  imports Complex_Main
begin

section \<open>Light Pilot: the data the add-on works on\<close>

text \<open>
  The add-on (\<^verbatim>\<open>LightPilotforBlender.py\<close>) keeps three module globals
  (\<^verbatim>\<open>is_piloting\<close>, \<^verbatim>\<open>piloted_light\<close>, \<^verbatim>\<open>previous_view_state\<close>) and works on what
  the host hands it: \<^verbatim>\<open>bpy.data.objects\<close>, and the \<^verbatim>\<open>context\<close> with its area,
  \<^verbatim>\<open>region_data\<close>, \<^verbatim>\<open>space_data\<close>, \<^verbatim>\<open>scene\<close> and active object. Python floats are
  read as reals; the code only stores and copies them, all arithmetic on them happens in
  \<^verbatim>\<open>mathutils\<close>, which is host code and enters as a parameter. A real has no sign of
  zero and is not rounded as the host's 32 bit floats are.
\<close>

type_synonym vec = "real \<times> real \<times> real"
type_synonym quat = "real \<times> real \<times> real \<times> real"
type_synonym euler = "(real \<times> real \<times> real) \<times> string"
type_synonym row4 = "real \<times> real \<times> real \<times> real"
type_synonym matrix = "row4 \<times> row4 \<times> row4 \<times> row4"

text \<open>
  A Python exception is a value: a call returns its result or raises, and what it wrote
  before raising stays written.
\<close>

datatype error = AttributeError | ReferenceError | ValueError

datatype 'a outcome = Returned 'a | Raised error

text \<open>
  The \<^verbatim>\<open>mathutils\<close> operations the add-on calls, as parameters of the model.
  \<^verbatim>\<open>Quaternion.to_euler\<close> raises \<^verbatim>\<open>ValueError\<close> on an order string it does not accept:
  \<open>to_euler\<close> is \<open>None\<close> there.
\<close>

record mathutils =
  inverted :: "matrix \<Rightarrow> matrix"
  normalized :: "vec \<Rightarrow> vec"
  to_track_quat :: "vec \<Rightarrow> string \<Rightarrow> string \<Rightarrow> quat"
  to_euler :: "quat \<Rightarrow> string \<Rightarrow> euler option"
  matrix_to_quaternion :: "matrix \<Rightarrow> quat"
  euler_to_quaternion :: "euler \<Rightarrow> quat"
  quat_rotate :: "quat \<Rightarrow> vec \<Rightarrow> vec"

text \<open>\<^verbatim>\<open>Matrix.translation\<close>: the first three entries of the last column.\<close>

fun translation :: "matrix \<Rightarrow> vec" where
  "translation ((_, _, _, tx), (_, _, _, ty), (_, _, _, tz), _) = (tx, ty, tz)"

text \<open>\<^verbatim>\<open>Matrix.to_3x3()[2]\<close>: the third row of the upper left 3x3 block.\<close>

fun to_3x3_row2 :: "matrix \<Rightarrow> vec" where
  "to_3x3_row2 (_, _, (a, b, c, _), _) = (a, b, c)"

text \<open>Unary minus on a \<^verbatim>\<open>Vector\<close>.\<close>

fun vec_neg :: "vec \<Rightarrow> vec" where
  "vec_neg (a, b, c) = (- a, - b, - c)"

text \<open>
  An entry of \<^verbatim>\<open>bpy.data.objects\<close>. \<open>obj_type\<close> is \<^verbatim>\<open>object.type\<close>, \<open>data_type\<close> is
  \<^verbatim>\<open>object.data.type\<close> (the kind of light). Objects whose data has no \<^verbatim>\<open>type\<close> (a mesh,
  an empty) are not lights and have no place in this record.
\<close>

record bpy_object =
  name :: string
  obj_type :: string
  data_type :: string
  location :: vec
  rotation_mode :: string
  rotation_quaternion :: quat
  rotation_euler :: euler
  matrix_world :: matrix

text \<open>\<^verbatim>\<open>context.region_data\<close> (a RegionView3D) and \<^verbatim>\<open>context.space_data\<close> (a SpaceView3D).\<close>

record region_view_3d =
  view_location :: vec
  view_rotation :: quat
  view_distance :: real
  view_perspective :: string
  view_matrix :: matrix

record space_view_3d =
  use_local_camera :: bool
  camera :: "string option"

text \<open>A region of \<^verbatim>\<open>context.area.regions\<close>, with the flag \<^verbatim>\<open>tag_redraw()\<close> sets.\<close>

record region =
  region_type :: string
  redraw_tagged :: bool

text \<open>
  The dict \<^verbatim>\<open>previous_view_state\<close>: each of its six keys is absent (\<open>None\<close>) or holds
  the captured value. The captured camera is itself an object or Python's \<^verbatim>\<open>None\<close>.
\<close>

record saved_view_state =
  sv_view_location :: "vec option"
  sv_view_rotation :: "quat option"
  sv_view_distance :: "real option"
  sv_view_perspective :: "string option"
  sv_use_local_camera :: "bool option"
  sv_camera :: "string option option"

definition empty_view_state :: saved_view_state where
  "empty_view_state =
     \<lparr>sv_view_location = None, sv_view_rotation = None, sv_view_distance = None,
      sv_view_perspective = None, sv_use_local_camera = None, sv_camera = None\<rparr>"

text \<open>Truth value of the dict: it has at least one key.\<close>

definition view_state_nonempty :: "saved_view_state \<Rightarrow> bool" where
  "view_state_nonempty pv =
     (sv_view_location pv \<noteq> None \<or> sv_view_rotation pv \<noteq> None \<or> sv_view_distance pv \<noteq> None \<or>
      sv_view_perspective pv \<noteq> None \<or> sv_use_local_camera pv \<noteq> None \<or> sv_camera pv \<noteq> None)"

datatype op_result = PASS_THROUGH | FINISHED | RUNNING_MODAL | CANCELLED

record event =
  event_type :: string
  event_value :: string

text \<open>
  The whole state the add-on reads and writes. \<open>piloted_light\<close> holds a reference to an
  object, modelled as its key in \<open>objects\<close>. \<open>modal_handlers\<close> lists the
  \<^verbatim>\<open>light_object\<close> property of each operator instance handed to
  \<^verbatim>\<open>window_manager.modal_handler_add\<close>; \<open>reports\<close> is the log of \<^verbatim>\<open>self.report\<close> calls.
  \<open>context_object\<close> is \<^verbatim>\<open>context.object\<close> as \<^verbatim>\<open>poll\<close> and \<^verbatim>\<open>execute\<close> read it: its type and
  its name, which the add-on never writes. \<open>scene_camera\<close> is the camera of the scene.
  \<open>region_data\<close> and \<open>space_data\<close> are the view data of the context's area and window
  region; the context hands them out in a 3D view only (\<open>context_region_data\<close>,
  \<open>context_space_data\<close> below).
\<close>

record world =
  is_piloting :: bool
  piloted_light :: "string option"
  previous_view_state :: saved_view_state
  objects :: "string \<rightharpoonup> bpy_object"
  context_object :: "bpy_object option"
  area_type :: string
  area_regions :: "region list"
  region_data :: region_view_3d
  space_data :: space_view_3d
  scene :: "string \<rightharpoonup> string"
  scene_camera :: "string option"
  modal_handlers :: "string list"
  reports :: "(string \<times> string) list"

section \<open>The host\<close>

text \<open>
  \<^verbatim>\<open>context.region_data\<close> is \<^verbatim>\<open>None\<close> when the area is not a 3D view, and the space of
  such an area has none of the attributes of a SpaceView3D: reading or writing through
  either raises \<^verbatim>\<open>AttributeError\<close>.
\<close>

definition context_region_data :: "world \<Rightarrow> region_view_3d option" where
  "context_region_data s = (if area_type s = ''VIEW_3D'' then Some (region_data s) else None)"

definition context_space_data :: "world \<Rightarrow> space_view_3d option" where
  "context_space_data s = (if area_type s = ''VIEW_3D'' then Some (space_data s) else None)"

text \<open>
  A statement either runs and gives the next state, or raises \<^verbatim>\<open>AttributeError\<close> and
  leaves the state as it is (\<open>None\<close>). \<open>exec_stmts\<close> runs statements in order up to the
  first that raises, and returns the state reached.
\<close>

type_synonym stmt = "world \<Rightarrow> world option"

fun exec_stmts :: "stmt list \<Rightarrow> world \<Rightarrow> world \<times> error option" where
  "exec_stmts [] s = (s, None)"
| "exec_stmts (f # fs) s =
     (case f s of None \<Rightarrow> (s, Some AttributeError) | Some s' \<Rightarrow> exec_stmts fs s')"

text \<open>An assignment to an attribute of \<^verbatim>\<open>context.region_data\<close>, of \<^verbatim>\<open>context.space_data\<close>.\<close>

definition write_region :: "(region_view_3d \<Rightarrow> region_view_3d) \<Rightarrow> stmt" where
  "write_region f s =
     (case context_region_data s of
        None \<Rightarrow> None
      | Some rd \<Rightarrow> Some (s\<lparr>region_data := f rd\<rparr>))"

definition write_space :: "(space_view_3d \<Rightarrow> space_view_3d) \<Rightarrow> stmt" where
  "write_space f s =
     (case context_space_data s of
        None \<Rightarrow> None
      | Some sd \<Rightarrow> Some (s\<lparr>space_data := f sd\<rparr>))"

text \<open>
  The host's setter of \<^verbatim>\<open>SpaceView3D.use_local_camera\<close>: clearing the flag locks the view
  to the scene again and binds the view's camera to the camera of the scene.
\<close>

definition set_use_local_camera :: "bool \<Rightarrow> stmt" where
  "set_use_local_camera b s =
     write_space
       (\<lambda>sd. sd\<lparr>use_local_camera := b, camera := (if b then camera sd else scene_camera s)\<rparr>) s"

text \<open>
  Between two calls of the add-on the host redraws the viewport and writes the view matrix
  of the region anew.
\<close>

definition host_redraw :: "matrix \<Rightarrow> world \<Rightarrow> world" where
  "host_redraw vm s = s\<lparr>region_data := (region_data s)\<lparr>view_matrix := vm\<rparr>\<rparr>"

section \<open>The operators\<close>

definition report :: "string \<Rightarrow> string \<Rightarrow> world \<Rightarrow> world" where
  "report level msg s = s\<lparr>reports := reports s @ [(level, msg)]\<rparr>"

text \<open>The membership test \<^verbatim>\<open>light_obj.data.type in ['SUN', 'SPOT', 'AREA']\<close>.\<close>

definition is_directional :: "bpy_object \<Rightarrow> bool" where
  "is_directional ob = (data_type ob \<in> set [''SUN'', ''SPOT'', ''AREA''])"

subsection \<open>\<^verbatim>\<open>LIGHTPILOT_OT_pilot_light_modal.restore_view_state\<close>\<close>

text \<open>Lines 102 to 113: the six guarded assignments, in the order of the source.\<close>

definition restore_stmts :: "saved_view_state \<Rightarrow> stmt list" where
  "restore_stmts pv =
     [(case sv_view_perspective pv of
         None \<Rightarrow> Some
       | Some p \<Rightarrow> write_region (\<lambda>rd. rd\<lparr>view_perspective := p\<rparr>)),
      (case sv_use_local_camera pv of
         None \<Rightarrow> Some
       | Some b \<Rightarrow> set_use_local_camera b),
      (case sv_camera pv of
         Some (Some c) \<Rightarrow> write_space (\<lambda>sd. sd\<lparr>camera := Some c\<rparr>)
       | _ \<Rightarrow> Some),
      (case sv_view_location pv of
         None \<Rightarrow> Some
       | Some l \<Rightarrow> write_region (\<lambda>rd. rd\<lparr>view_location := l\<rparr>)),
      (case sv_view_rotation pv of
         None \<Rightarrow> Some
       | Some q \<Rightarrow> write_region (\<lambda>rd. rd\<lparr>view_rotation := q\<rparr>)),
      (case sv_view_distance pv of
         None \<Rightarrow> Some
       | Some d \<Rightarrow> write_region (\<lambda>rd. rd\<lparr>view_distance := d\<rparr>))]"

definition restore_view_state :: "world \<Rightarrow> world \<times> error option" where
  "restore_view_state s =
     (if view_state_nonempty (previous_view_state s)
      then (case exec_stmts (restore_stmts (previous_view_state s)) s of
              (s', Some e) \<Rightarrow> (s', Some e)
            | (s', None) \<Rightarrow> (s'\<lparr>previous_view_state := empty_view_state\<rparr>, None))
      else (s, None))"

subsection \<open>\<^verbatim>\<open>LIGHTPILOT_OT_pilot_light_modal.cleanup\<close>\<close>

definition cleanup :: "world \<Rightarrow> world \<times> op_result outcome" where
  "cleanup s =
     (let s1 = s\<lparr>is_piloting := False, piloted_light := None\<rparr>
      in case restore_view_state s1 of
           (s2, Some e) \<Rightarrow> (s2, Raised e)
         | (s2, None) \<Rightarrow>
             (let s3 = (if ''lightpilot_active_light'' \<in> dom (scene s2)
                        then s2\<lparr>scene := (scene s2)(''lightpilot_active_light'' := None)\<rparr>
                        else s2)
              in (report ''INFO'' ''Exited light pilot mode'' s3, Returned FINISHED)))"

subsection \<open>\<^verbatim>\<open>LIGHTPILOT_OT_pilot_light_modal.modal\<close>\<close>

text \<open>
  Lines 46 to 67: the light follows the viewer. The location is written first; where
  \<^verbatim>\<open>to_euler\<close> then raises, the light keeps the new location.
\<close>

definition sync_light :: "mathutils \<Rightarrow> region_view_3d \<Rightarrow> bpy_object \<Rightarrow> bpy_object \<times> error option" where
  "sync_light M rd light_obj =
     (let viewer_location = translation (inverted M (view_matrix rd));
          ob1 = light_obj\<lparr>location := viewer_location\<rparr>
      in if is_directional ob1
         then (let forward = vec_neg (normalized M (to_3x3_row2 (view_matrix rd)));
                   q = to_track_quat M forward ''-Z'' ''Y''
               in if rotation_mode ob1 = ''QUATERNION''
                  then (ob1\<lparr>rotation_quaternion := q\<rparr>, None)
                  else (case to_euler M q (rotation_mode ob1) of
                          None \<Rightarrow> (ob1, Some ValueError)
                        | Some e \<Rightarrow> (ob1\<lparr>rotation_euler := e\<rparr>, None)))
         else (ob1, None))"

definition tag_ui_redraw :: "region list \<Rightarrow> region list" where
  "tag_ui_redraw rs =
     map (\<lambda>r. if region_type r = ''UI'' then r\<lparr>redraw_tagged := True\<rparr> else r) rs"

definition modal :: "mathutils \<Rightarrow> string \<Rightarrow> world \<Rightarrow> event \<Rightarrow> world \<times> op_result outcome" where
  "modal M light_object s ev =
     (if \<not> is_piloting s \<or> area_type s \<noteq> ''VIEW_3D'' then cleanup s
      else (case objects s light_object of
              Some light_obj \<Rightarrow>
                (case context_region_data s of
                   None \<Rightarrow> (s, Raised AttributeError)
                 | Some rd \<Rightarrow>
                     (case sync_light M rd light_obj of
                        (ob, Some e) \<Rightarrow> (s\<lparr>objects := (objects s)(light_object \<mapsto> ob)\<rparr>, Raised e)
                      | (ob, None) \<Rightarrow>
                          (let s1 = s\<lparr>objects := (objects s)(light_object \<mapsto> ob)\<rparr>
                           in if event_type ev = ''ESC'' \<and> event_value ev = ''PRESS'' then cleanup s1
                              else (s1\<lparr>area_regions := tag_ui_redraw (area_regions s1)\<rparr>,
                                    Returned PASS_THROUGH))))
            | None \<Rightarrow> (s, Returned PASS_THROUGH)))"

subsection \<open>\<^verbatim>\<open>LIGHTPILOT_OT_pilot_light_modal.invoke\<close>\<close>

text \<open>Lines 126 to 133: the dict is built from the view before anything is written.\<close>

definition capture_view_state :: "region_view_3d \<Rightarrow> space_view_3d \<Rightarrow> saved_view_state" where
  "capture_view_state rd sd =
     \<lparr>sv_view_location = Some (view_location rd),
      sv_view_rotation = Some (view_rotation rd),
      sv_view_distance = Some (view_distance rd),
      sv_view_perspective = Some (view_perspective rd),
      sv_use_local_camera = Some (use_local_camera sd),
      sv_camera = Some (camera sd)\<rparr>"

text \<open>Lines 151 and 152: \<^verbatim>\<open>forward_vec\<close>, the light's own \<open>-Z\<close> axis in the world, normalized.\<close>

definition light_forward :: "mathutils \<Rightarrow> bpy_object \<Rightarrow> vec" where
  "light_forward M light_obj =
     normalized M (quat_rotate M (matrix_to_quaternion M (matrix_world light_obj)) (0, 0, - 1))"

text \<open>Lines 149 to 162: the rotation the view takes from the light.\<close>

definition start_rotation :: "mathutils \<Rightarrow> bpy_object \<Rightarrow> quat" where
  "start_rotation M light_obj =
     (if is_directional light_obj
      then (let forward_vec = light_forward M light_obj
            in to_track_quat M forward_vec ''-Z'' ''Y'')
      else if rotation_mode light_obj = ''QUATERNION'' then rotation_quaternion light_obj
      else euler_to_quaternion M (rotation_euler light_obj))"

text \<open>
  Lines 126 to 178, statement by statement (the view distance is written twice). The copy
  of the view matrix taken on line 143 is never read and is left out.
\<close>

definition invoke_stmts :: "mathutils \<Rightarrow> string \<Rightarrow> bpy_object \<Rightarrow> saved_view_state \<Rightarrow> stmt list" where
  "invoke_stmts M light_object light_obj pv =
     [(\<lambda>s. Some (s\<lparr>previous_view_state := pv\<rparr>)),
      write_region (\<lambda>rd. rd\<lparr>view_perspective := ''PERSP''\<rparr>),
      set_use_local_camera False,
      write_region (\<lambda>rd. rd\<lparr>view_location := location light_obj\<rparr>),
      write_region (\<lambda>rd. rd\<lparr>view_distance := 1 / 1000\<rparr>),
      write_region (\<lambda>rd. rd\<lparr>view_rotation := start_rotation M light_obj\<rparr>),
      write_region (\<lambda>rd. rd\<lparr>view_distance := 1 / 1000\<rparr>),
      (\<lambda>s. Some (s\<lparr>is_piloting := True, piloted_light := Some light_object\<rparr>)),
      (\<lambda>s. Some (s\<lparr>scene := (scene s)(''lightpilot_active_light'' \<mapsto> name light_obj)\<rparr>)),
      (\<lambda>s. Some (report ''INFO'' (''Now piloting light: '' @ name light_obj) s)),
      (\<lambda>s. Some (s\<lparr>modal_handlers := modal_handlers s @ [light_object]\<rparr>))]"

definition invoke :: "mathutils \<Rightarrow> string \<Rightarrow> world \<Rightarrow> world \<times> op_result outcome" where
  "invoke M light_object s =
     (case objects s light_object of
        Some light_obj \<Rightarrow>
          (case context_region_data s of
             None \<Rightarrow> (s, Raised AttributeError)
           | Some rd \<Rightarrow>
               (case context_space_data s of
                  None \<Rightarrow> (s, Raised AttributeError)
                | Some sd \<Rightarrow>
                    (case exec_stmts
                            (invoke_stmts M light_object light_obj (capture_view_state rd sd)) s of
                       (s', Some e) \<Rightarrow> (s', Raised e)
                     | (s', None) \<Rightarrow> (s', Returned RUNNING_MODAL))))
      | None \<Rightarrow> (report ''ERROR'' ''Could not find the specified light'' s, Returned CANCELLED))"

subsection \<open>\<^verbatim>\<open>LIGHTPILOT_OT_pilot_light\<close>, \<^verbatim>\<open>LIGHTPILOT_OT_exit_pilot\<close> and the panel\<close>

definition pilot_light_poll :: "world \<Rightarrow> bool" where
  "pilot_light_poll s =
     (case context_object s of None \<Rightarrow> False | Some ob \<Rightarrow> obj_type ob = ''LIGHT'')"

text \<open>
  \<^verbatim>\<open>execute\<close> calls \<^verbatim>\<open>bpy.ops.light.pilot_modal('INVOKE_DEFAULT', ...)\<close>, which runs
  \<open>invoke\<close>, and returns \<^verbatim>\<open>{'FINISHED'}\<close> whatever \<open>invoke\<close> returned; what \<open>invoke\<close>
  raises, it raises. With no selected object \<^verbatim>\<open>context.object.name\<close> raises. The host
  runs \<^verbatim>\<open>execute\<close> only where \<^verbatim>\<open>poll\<close> holds: in \<open>pilot_light\<close>, \<open>None\<close> is the operator
  not being run.
\<close>

definition pilot_light_execute :: "mathutils \<Rightarrow> world \<Rightarrow> world \<times> op_result outcome" where
  "pilot_light_execute M s =
     (case context_object s of
        None \<Rightarrow> (s, Raised AttributeError)
      | Some ob \<Rightarrow>
          (case invoke M (name ob) s of
             (s', Raised e) \<Rightarrow> (s', Raised e)
           | (s', Returned r) \<Rightarrow> (s', Returned FINISHED)))"

definition pilot_light :: "mathutils \<Rightarrow> world \<Rightarrow> (world \<times> op_result outcome) option" where
  "pilot_light M s = (if pilot_light_poll s then Some (pilot_light_execute M s) else None)"

definition exit_pilot_poll :: "world \<Rightarrow> bool" where
  "exit_pilot_poll s = is_piloting s"

definition exit_pilot_execute :: "world \<Rightarrow> world \<times> op_result outcome" where
  "exit_pilot_execute s = (s\<lparr>is_piloting := False\<rparr>, Returned FINISHED)"

text \<open>
  The operator buttons \<^verbatim>\<open>LIGHTPILOT_PT_panel.draw\<close> lays out (\<^verbatim>\<open>layout.operator\<close>
  calls), in order. In a session \<^verbatim>\<open>draw\<close> reads \<^verbatim>\<open>piloted_light.data\<close> first (line 240),
  which raises \<^verbatim>\<open>ReferenceError\<close> when the light has been removed.
\<close>

definition panel_operators :: "world \<Rightarrow> string list outcome" where
  "panel_operators s =
     (case (if is_piloting s then piloted_light s else None) of
        Some k \<Rightarrow>
          (case objects s k of
             None \<Rightarrow> Raised ReferenceError
           | Some light_obj \<Rightarrow> Returned [''light.exit_pilot''])
      | None \<Rightarrow>
          (if pilot_light_poll s then Returned [''light.pilot''] else Returned []))"

section \<open>Frames\<close>

text \<open>What a write to the view leaves alone: everything but \<open>region_data\<close> and \<open>space_data\<close>.\<close>

definition same_session :: "world \<Rightarrow> world \<Rightarrow> bool" where
  "same_session t t' \<longleftrightarrow>
     is_piloting t' = is_piloting t \<and> piloted_light t' = piloted_light t \<and>
     previous_view_state t' = previous_view_state t \<and> objects t' = objects t \<and>
     context_object t' = context_object t \<and> area_type t' = area_type t \<and>
     area_regions t' = area_regions t \<and> scene t' = scene t \<and>
     scene_camera t' = scene_camera t \<and> modal_handlers t' = modal_handlers t \<and>
     reports t' = reports t"

section \<open>A concrete scene\<close>

text \<open>
  A scene with a sun and a point light, an idle viewport, and a stand-in for \<^verbatim>\<open>mathutils\<close>,
  used to run the operators on concrete inputs.
\<close>

definition identity_matrix :: matrix where
  "identity_matrix = ((1, 0, 0, 0), (0, 1, 0, 0), (0, 0, 1, 0), (0, 0, 0, 1))"

definition stub_mathutils :: mathutils where
  "stub_mathutils =
     \<lparr>inverted = (\<lambda>m. m),
      normalized = (\<lambda>v. v),
      to_track_quat = (\<lambda>v _ _. (1, 0, 0, 0)),
      to_euler = (\<lambda>q m. Some ((0, 0, 0), m)),
      matrix_to_quaternion = (\<lambda>m. (1, 0, 0, 0)),
      euler_to_quaternion = (\<lambda>e. (1, 0, 0, 0)),
      quat_rotate = (\<lambda>q v. v)\<rparr>"

definition sun_light :: bpy_object where
  "sun_light =
     \<lparr>name = ''Sun'', obj_type = ''LIGHT'', data_type = ''SUN'', location = (4, 1, 6),
      rotation_mode = ''XYZ'', rotation_quaternion = (1, 0, 0, 0),
      rotation_euler = ((0, 0, 0), ''XYZ''), matrix_world = identity_matrix\<rparr>"

definition point_light :: bpy_object where
  "point_light =
     \<lparr>name = ''Point'', obj_type = ''LIGHT'', data_type = ''POINT'', location = (0, 0, 3),
      rotation_mode = ''QUATERNION'', rotation_quaternion = (0, 1, 0, 0),
      rotation_euler = ((0, 0, 0), ''XYZ''), matrix_world = identity_matrix\<rparr>"

definition idle_world :: world where
  "idle_world =
     \<lparr>is_piloting = False, piloted_light = None, previous_view_state = empty_view_state,
      objects = [''Sun'' \<mapsto> sun_light, ''Point'' \<mapsto> point_light],
      context_object = Some sun_light,
      area_type = ''VIEW_3D'',
      area_regions = [\<lparr>region_type = ''WINDOW'', redraw_tagged = False\<rparr>,
                      \<lparr>region_type = ''UI'', redraw_tagged = False\<rparr>],
      region_data = \<lparr>view_location = (0, 0, 0), view_rotation = (0, 0, 0, 1), view_distance = 10,
                     view_perspective = ''ORTHO'',
                     view_matrix = ((1, 0, 0, 1), (0, 1, 0, 2), (0, 0, 1, 3), (0, 0, 0, 1))\<rparr>,
      space_data = \<lparr>use_local_camera = True, camera = None\<rparr>,
      scene = Map.empty, scene_camera = Some ''Camera'', modal_handlers = [], reports = []\<rparr>"

text \<open>The state after piloting the sun has started.\<close>

definition piloting_sun :: world where
  "piloting_sun = fst (invoke stub_mathutils ''Sun'' idle_world)"

text \<open>The same session after the sun was deleted from the scene.\<close>

definition sun_deleted :: world where
  "sun_deleted = piloting_sun\<lparr>objects := [''Point'' \<mapsto> point_light]\<rparr>"

text \<open>The same session with the point light selected.\<close>

definition point_selected :: world where
  "point_selected = piloting_sun\<lparr>context_object := Some point_light\<rparr>"

text \<open>The same session after the area was switched to another editor.\<close>

definition view_closed :: world where
  "view_closed = piloting_sun\<lparr>area_type := ''PROPERTIES''\<rparr>"

text \<open>The idle viewport with a camera of its own bound to the view.\<close>

definition shot_bound :: world where
  "shot_bound = idle_world\<lparr>space_data := \<lparr>use_local_camera = True, camera = Some ''Shot''\<rparr>\<rparr>"

text \<open>A session on the point light instead.\<close>

definition piloting_point :: world where
  "piloting_point = fst (invoke stub_mathutils ''Point'' idle_world)"

definition mouse_move :: event where
  "mouse_move = \<lparr>event_type = ''MOUSEMOVE'', event_value = ''NOTHING''\<rparr>"

definition esc_press :: event where
  "esc_press = \<lparr>event_type = ''ESC'', event_value = ''PRESS''\<rparr>"

section \<open>Facts about the operators\<close>

subsection \<open>Statement lists\<close>

lemma exec_stmts_frame:
  assumes "\<And>f t t'. f \<in> set fs \<Longrightarrow> f t = Some t' \<Longrightarrow> g t' = g t"
  shows "g (fst (exec_stmts fs s)) = g s"
  using assms
proof (induction fs arbitrary: s)
  case Nil
  then show ?case by simp
next
  case (Cons f fs)
  show ?case
  proof (cases "f s")
    case None
    then show ?thesis by simp
  next
    case (Some t)
    have "g (fst (exec_stmts fs t)) = g t"
      using Cons.prems by (intro Cons.IH) auto
    moreover have "g t = g s"
      using Cons.prems [of f s t] Some by simp
    ultimately show ?thesis using Some by simp
  qed
qed

lemma exec_stmts_total:
  assumes "\<And>f t. f \<in> set fs \<Longrightarrow> I t \<Longrightarrow> \<exists>t'. f t = Some t' \<and> I t'" and "I s"
  shows "snd (exec_stmts fs s) = None \<and> I (fst (exec_stmts fs s))"
  using assms
proof (induction fs arbitrary: s)
  case Nil
  then show ?case by simp
next
  case (Cons f fs)
  from Cons.prems(1) [of f s] Cons.prems(2)
  obtain t where t: "f s = Some t" "I t" by auto
  have "snd (exec_stmts fs t) = None \<and> I (fst (exec_stmts fs t))"
    using Cons.prems(1) t(2) by (intro Cons.IH) auto
  then show ?case using t by simp
qed

lemma write_region_same: "write_region f t = Some t' \<Longrightarrow> same_session t t'"
  by (auto simp add: write_region_def same_session_def split: option.splits)

lemma write_space_same: "write_space f t = Some t' \<Longrightarrow> same_session t t'"
  by (auto simp add: write_space_def same_session_def split: option.splits)

lemma set_use_local_camera_same: "set_use_local_camera b t = Some t' \<Longrightarrow> same_session t t'"
  by (simp add: set_use_local_camera_def write_space_same)

lemma Some_same: "Some t = Some t' \<Longrightarrow> same_session t t'"
  by (simp add: same_session_def)

lemma restore_stmts_same:
  assumes "f \<in> set (restore_stmts pv)" and "f t = Some t'"
  shows "same_session t t'"
  using assms
  by (auto simp add: restore_stmts_def split: option.splits
      intro: write_region_same write_space_same set_use_local_camera_same Some_same)

subsection \<open>Restore, cleanup and invoke\<close>

lemma exec_restore_same: "same_session s (fst (exec_stmts (restore_stmts pv) s))"
proof -
  have "g (fst (exec_stmts (restore_stmts pv) s)) = g s"
    if "\<And>t t'. same_session t t' \<Longrightarrow> g t' = g t" for g :: "world \<Rightarrow> 'b"
    by (rule exec_stmts_frame) (rule that, rule restore_stmts_same)
  note g = this
  show ?thesis
    unfolding same_session_def
    by (intro conjI g) (simp_all add: same_session_def)
qed

lemma restore_view_state_frame:
  "is_piloting (fst (restore_view_state s)) = is_piloting s"
  "piloted_light (fst (restore_view_state s)) = piloted_light s"
  "objects (fst (restore_view_state s)) = objects s"
  "area_type (fst (restore_view_state s)) = area_type s"
  "scene (fst (restore_view_state s)) = scene s"
  "scene_camera (fst (restore_view_state s)) = scene_camera s"
  "modal_handlers (fst (restore_view_state s)) = modal_handlers s"
  "reports (fst (restore_view_state s)) = reports s"
  using exec_restore_same [of s "previous_view_state s"]
  by (auto simp add: restore_view_state_def same_session_def split: prod.splits option.splits)

lemma cleanup_frame:
  "objects (fst (cleanup s)) = objects s"
  "area_type (fst (cleanup s)) = area_type s"
  "scene_camera (fst (cleanup s)) = scene_camera s"
  "modal_handlers (fst (cleanup s)) = modal_handlers s"
  "\<not> is_piloting (fst (cleanup s))"
  "piloted_light (fst (cleanup s)) = None"
  using restore_view_state_frame [of "s\<lparr>is_piloting := False, piloted_light := None\<rparr>"]
  by (auto simp add: cleanup_def Let_def report_def split: prod.splits option.splits)

lemma cleanup_neq_pass_through: "cleanup s \<noteq> (t, Returned PASS_THROUGH)"
  by (simp add: cleanup_def Let_def split: prod.splits option.splits)

text \<open>In a 3D view every statement runs.\<close>

lemma write_region_in_view:
  "area_type t = ''VIEW_3D'' \<Longrightarrow> write_region f t = Some (t\<lparr>region_data := f (region_data t)\<rparr>)"
  by (simp add: write_region_def context_region_data_def)

lemma write_space_in_view:
  "area_type t = ''VIEW_3D'' \<Longrightarrow> write_space f t = Some (t\<lparr>space_data := f (space_data t)\<rparr>)"
  by (simp add: write_space_def context_space_data_def)

lemma set_use_local_camera_in_view:
  "area_type t = ''VIEW_3D'' \<Longrightarrow>
   set_use_local_camera b t =
     Some (t\<lparr>space_data := (space_data t)\<lparr>use_local_camera := b,
               camera := (if b then camera (space_data t) else scene_camera t)\<rparr>\<rparr>)"
  by (simp add: set_use_local_camera_def write_space_in_view)

lemma invoke_found:
  assumes "objects s lo = Some l" and "area_type s = ''VIEW_3D''"
  shows "invoke M lo s =
    (s\<lparr>previous_view_state := capture_view_state (region_data s) (space_data s),
       region_data := (region_data s)\<lparr>view_perspective := ''PERSP'', view_location := location l,
          view_rotation := start_rotation M l, view_distance := 1 / 1000\<rparr>,
       space_data := (space_data s)\<lparr>use_local_camera := False, camera := scene_camera s\<rparr>,
       is_piloting := True, piloted_light := Some lo,
       scene := (scene s)(''lightpilot_active_light'' \<mapsto> name l),
       reports := reports s @ [(''INFO'', ''Now piloting light: '' @ name l)],
       modal_handlers := modal_handlers s @ [lo]\<rparr>, Returned RUNNING_MODAL)"
  using assms
  by (simp add: invoke_def invoke_stmts_def context_region_data_def context_space_data_def
      write_region_in_view set_use_local_camera_in_view report_def)

lemma invoke_outside_view:
  assumes "objects s lo = Some l" and "area_type s \<noteq> ''VIEW_3D''"
  shows "invoke M lo s = (s, Raised AttributeError)"
  using assms by (simp add: invoke_def context_region_data_def)

lemma restore_view_state_full:
  assumes "area_type s = ''VIEW_3D''"
    and "previous_view_state s =
      \<lparr>sv_view_location = Some vl, sv_view_rotation = Some vr, sv_view_distance = Some vd,
       sv_view_perspective = Some vp, sv_use_local_camera = Some ulc, sv_camera = Some cam\<rparr>"
  shows "restore_view_state s =
    (s\<lparr>region_data := (region_data s)\<lparr>view_perspective := vp, view_location := vl,
          view_rotation := vr, view_distance := vd\<rparr>,
       space_data := (space_data s)\<lparr>use_local_camera := ulc,
          camera := (case cam of Some c \<Rightarrow> Some c
                     | None \<Rightarrow> if ulc then camera (space_data s) else scene_camera s)\<rparr>,
       previous_view_state := empty_view_state\<rparr>, None)"
  using assms
  by (cases cam)
     (simp_all add: restore_view_state_def restore_stmts_def view_state_nonempty_def
      write_region_in_view write_space_in_view set_use_local_camera_in_view)

lemma scene_del:
  "(if k \<in> dom (scene t) then t\<lparr>scene := (scene t)(k := None)\<rparr> else t) =
   t\<lparr>scene := (scene t)(k := None)\<rparr>"
proof (cases "k \<in> dom (scene t)")
  case True
  then show ?thesis by simp
next
  case False
  then have "(scene t)(k := None) = scene t"
    by (simp add: domIff fun_upd_idem)
  then show ?thesis using False by simp
qed

lemma cleanup_full:
  assumes "area_type s = ''VIEW_3D''"
    and "previous_view_state s =
      \<lparr>sv_view_location = Some vl, sv_view_rotation = Some vr, sv_view_distance = Some vd,
       sv_view_perspective = Some vp, sv_use_local_camera = Some ulc, sv_camera = Some cam\<rparr>"
  shows "cleanup s =
    (s\<lparr>is_piloting := False, piloted_light := None,
       region_data := (region_data s)\<lparr>view_perspective := vp, view_location := vl,
          view_rotation := vr, view_distance := vd\<rparr>,
       space_data := (space_data s)\<lparr>use_local_camera := ulc,
          camera := (case cam of Some c \<Rightarrow> Some c
                     | None \<Rightarrow> if ulc then camera (space_data s) else scene_camera s)\<rparr>,
       previous_view_state := empty_view_state,
       scene := (scene s)(''lightpilot_active_light'' := None),
       reports := reports s @ [(''INFO'', ''Exited light pilot mode'')]\<rparr>, Returned FINISHED)"
proof -
  let ?s1 = "s\<lparr>is_piloting := False, piloted_light := None\<rparr>"
  have "area_type ?s1 = ''VIEW_3D''" and "previous_view_state ?s1 =
      \<lparr>sv_view_location = Some vl, sv_view_rotation = Some vr, sv_view_distance = Some vd,
       sv_view_perspective = Some vp, sv_use_local_camera = Some ulc, sv_camera = Some cam\<rparr>"
    using assms by simp_all
  note r = restore_view_state_full [OF this]
  show ?thesis
    by (cases cam) (simp_all add: cleanup_def Let_def r report_def scene_del)
qed

lemma view_state_empty:
  "\<not> view_state_nonempty pv \<Longrightarrow> pv = empty_view_state"
  by (cases pv) (simp add: view_state_nonempty_def empty_view_state_def del: not_None_eq)

lemma restore_view_state_outside:
  assumes "area_type s \<noteq> ''VIEW_3D''" and "sv_view_perspective (previous_view_state s) = Some p"
  shows "restore_view_state s = (s, Some AttributeError)"
  using assms
  by (simp add: restore_view_state_def restore_stmts_def view_state_nonempty_def
      write_region_def context_region_data_def)

lemma cleanup_outside:
  assumes "area_type s \<noteq> ''VIEW_3D''" and "sv_view_perspective (previous_view_state s) = Some p"
  shows "cleanup s = (s\<lparr>is_piloting := False, piloted_light := None\<rparr>, Raised AttributeError)"
proof -
  let ?s1 = "s\<lparr>is_piloting := False, piloted_light := None\<rparr>"
  have "area_type ?s1 \<noteq> ''VIEW_3D''" and "sv_view_perspective (previous_view_state ?s1) = Some p"
    using assms by simp_all
  note r = restore_view_state_outside [OF this]
  show ?thesis
    by (simp add: cleanup_def Let_def r)
qed

text \<open>In a 3D view the restore runs to its end, whatever the snapshot holds.\<close>

lemma restore_stmts_in_view:
  assumes "f \<in> set (restore_stmts pv)" and "area_type t = ''VIEW_3D''"
  shows "\<exists>t'. f t = Some t' \<and> area_type t' = ''VIEW_3D''"
  using assms
  by (auto simp add: restore_stmts_def write_region_in_view write_space_in_view
      set_use_local_camera_in_view split: option.splits)

lemma restore_view_state_in_view:
  assumes "area_type s = ''VIEW_3D''"
  shows "snd (restore_view_state s) = None"
    and "previous_view_state (fst (restore_view_state s)) = empty_view_state"
proof -
  have "snd (exec_stmts (restore_stmts (previous_view_state s)) s) = None \<and>
        area_type (fst (exec_stmts (restore_stmts (previous_view_state s)) s)) = ''VIEW_3D''"
    by (rule exec_stmts_total [where I = "\<lambda>t. area_type t = ''VIEW_3D''"])
       (auto intro: restore_stmts_in_view assms)
  then show "snd (restore_view_state s) = None"
    and "previous_view_state (fst (restore_view_state s)) = empty_view_state"
    by (auto simp add: restore_view_state_def view_state_empty split: prod.splits option.splits)
qed

lemma cleanup_in_view:
  assumes "area_type s = ''VIEW_3D''"
  shows "snd (cleanup s) = Returned FINISHED"
    and "previous_view_state (fst (cleanup s)) = empty_view_state"
    and "scene (fst (cleanup s)) ''lightpilot_active_light'' = None"
    and "reports (fst (cleanup s)) = reports s @ [(''INFO'', ''Exited light pilot mode'')]"
proof -
  let ?s1 = "s\<lparr>is_piloting := False, piloted_light := None\<rparr>"
  have v: "area_type ?s1 = ''VIEW_3D''" using assms by simp
  obtain s2 e where r: "restore_view_state ?s1 = (s2, e)" by (cases "restore_view_state ?s1")
  from restore_view_state_in_view [OF v] r
  have e: "e = None" and pv: "previous_view_state s2 = empty_view_state" by simp_all
  from restore_view_state_frame(8) [of ?s1] r have rp: "reports s2 = reports s" by simp
  show "snd (cleanup s) = Returned FINISHED"
    and "previous_view_state (fst (cleanup s)) = empty_view_state"
    and "scene (fst (cleanup s)) ''lightpilot_active_light'' = None"
    and "reports (fst (cleanup s)) = reports s @ [(''INFO'', ''Exited light pilot mode'')]"
    by (simp_all add: cleanup_def Let_def r e pv rp report_def domIff)
qed

lemma restore_view_state_empty:
  "previous_view_state s = empty_view_state \<Longrightarrow> restore_view_state s = (s, None)"
  by (simp add: restore_view_state_def view_state_nonempty_def empty_view_state_def)

lemma cleanup_idle:
  assumes "\<not> is_piloting t" and "piloted_light t = None"
    and "previous_view_state t = empty_view_state"
    and "scene t ''lightpilot_active_light'' = None"
  shows "cleanup t = (report ''INFO'' ''Exited light pilot mode'' t, Returned FINISHED)"
proof -
  have "t\<lparr>is_piloting := False, piloted_light := None\<rparr> = t"
    using assms(1,2) by simp
  then show ?thesis
    using assms(3,4) by (simp add: cleanup_def Let_def restore_view_state_empty domIff)
qed

text \<open>Inside a 3D view Stop is idempotent: the second call only repeats its notice.\<close>

lemma cleanup_twice_in_view:
  assumes "area_type s = ''VIEW_3D''"
  shows "cleanup (fst (cleanup s)) =
           (report ''INFO'' ''Exited light pilot mode'' (fst (cleanup s)), Returned FINISHED)"
  by (rule cleanup_idle) (simp_all add: cleanup_frame cleanup_in_view [OF assms])

subsection \<open>The tick\<close>

lemma modal_stopped:
  assumes "\<not> is_piloting s \<or> area_type s \<noteq> ''VIEW_3D''"
  shows "modal M lo s ev = cleanup s"
  using assms by (auto simp add: modal_def)

lemma modal_light_gone:
  assumes "is_piloting s" and "area_type s = ''VIEW_3D''" and "objects s lo = None"
  shows "modal M lo s ev = (s, Returned PASS_THROUGH)"
  using assms by (simp add: modal_def)

lemma modal_running:
  assumes "is_piloting s" and "area_type s = ''VIEW_3D''" and "objects s lo = Some l"
  shows "objects (fst (modal M lo s ev)) = (objects s)(lo \<mapsto> fst (sync_light M (region_data s) l))"
  using assms
  by (simp add: modal_def Let_def context_region_data_def cleanup_frame
      split: prod.splits option.splits)

lemma modal_esc_found:
  assumes "is_piloting s" and "area_type s = ''VIEW_3D''" and "objects s lo = Some l"
    and "sync_light M (region_data s) l = (l', None)"
    and "event_type ev = ''ESC''" and "event_value ev = ''PRESS''"
  shows "modal M lo s ev = cleanup (s\<lparr>objects := (objects s)(lo \<mapsto> l')\<rparr>)"
  using assms by (simp add: modal_def Let_def context_region_data_def)

lemma sync_light_point:
  assumes "data_type l \<notin> set [''SUN'', ''SPOT'', ''AREA'']"
  shows "sync_light M rd l = (l\<lparr>location := translation (inverted M (view_matrix rd))\<rparr>, None)"
  using assms by (simp add: sync_light_def is_directional_def Let_def)

lemma sync_light_location:
  "location (fst (sync_light M rd l)) = translation (inverted M (view_matrix rd))"
  by (simp add: sync_light_def Let_def split: option.splits)

lemma host_redraw_state:
  "is_piloting (host_redraw vm s) = is_piloting s"
  "area_type (host_redraw vm s) = area_type s"
  "objects (host_redraw vm s) = objects s"
  "view_matrix (region_data (host_redraw vm s)) = vm"
  by (simp_all add: host_redraw_def)

lemma panel_hides_pilot_while_piloting:
  assumes "is_piloting s" and "piloted_light s = Some k" and "objects s k = Some l"
  shows "panel_operators s = Returned [''light.exit_pilot'']"
  using assms by (simp add: panel_operators_def)

subsection \<open>The concrete scene\<close>

lemma idle_world_state:
  "objects idle_world ''Sun'' = Some sun_light"
  "objects idle_world ''Point'' = Some point_light"
  "objects idle_world ''Moon'' = None"
  "area_type idle_world = ''VIEW_3D''"
  by (simp_all add: idle_world_def)

lemma piloting_sun_eq:
  "piloting_sun =
     idle_world\<lparr>previous_view_state :=
         \<lparr>sv_view_location = Some (0, 0, 0), sv_view_rotation = Some (0, 0, 0, 1),
          sv_view_distance = Some 10, sv_view_perspective = Some ''ORTHO'',
          sv_use_local_camera = Some True, sv_camera = Some None\<rparr>,
       region_data := \<lparr>view_location = (4, 1, 6), view_rotation = (1, 0, 0, 0),
          view_distance = 1 / 1000, view_perspective = ''PERSP'',
          view_matrix = ((1, 0, 0, 1), (0, 1, 0, 2), (0, 0, 1, 3), (0, 0, 0, 1))\<rparr>,
       space_data := \<lparr>use_local_camera = False, camera = Some ''Camera''\<rparr>,
       is_piloting := True, piloted_light := Some ''Sun'',
       scene := [''lightpilot_active_light'' \<mapsto> ''Sun''],
       reports := [(''INFO'', ''Now piloting light: Sun'')],
       modal_handlers := [''Sun'']\<rparr>"
proof -
  have "start_rotation stub_mathutils sun_light = (1, 0, 0, 0)"
    by (simp add: start_rotation_def light_forward_def stub_mathutils_def is_directional_def sun_light_def)
  moreover have "name sun_light = ''Sun''" and "location sun_light = (4, 1, 6)"
    by (simp_all add: sun_light_def)
  ultimately show ?thesis
    unfolding piloting_sun_def
    by (simp add: invoke_found [OF idle_world_state(1) idle_world_state(4)])
       (simp add: idle_world_def capture_view_state_def)
qed

lemma piloting_sun_state:
  "is_piloting piloting_sun"
  "area_type piloting_sun = ''VIEW_3D''"
  "objects piloting_sun = objects idle_world"
  "piloted_light piloting_sun = Some ''Sun''"
  "modal_handlers piloting_sun = [''Sun'']"
  "previous_view_state piloting_sun =
     \<lparr>sv_view_location = Some (0, 0, 0), sv_view_rotation = Some (0, 0, 0, 1),
      sv_view_distance = Some 10, sv_view_perspective = Some ''ORTHO'',
      sv_use_local_camera = Some True, sv_camera = Some None\<rparr>"
  "view_perspective (region_data piloting_sun) = ''PERSP''"
  "reports piloting_sun = [(''INFO'', ''Now piloting light: Sun'')]"
  "scene piloting_sun ''lightpilot_active_light'' = Some ''Sun''"
  by (simp_all add: piloting_sun_eq) (simp_all add: idle_world_def)

lemma sun_deleted_state:
  "is_piloting sun_deleted"
  "area_type sun_deleted = ''VIEW_3D''"
  "objects sun_deleted ''Sun'' = None"
  "previous_view_state sun_deleted \<noteq> empty_view_state"
  by (simp_all add: sun_deleted_def piloting_sun_state empty_view_state_def)

lemma point_selected_state:
  "is_piloting point_selected"
  "area_type point_selected = ''VIEW_3D''"
  "piloted_light point_selected = Some ''Sun''"
  "context_object point_selected = Some point_light"
  "objects point_selected ''Point'' = Some point_light"
  "modal_handlers point_selected = [''Sun'']"
  "sv_view_perspective (previous_view_state point_selected) = Some ''ORTHO''"
  "view_perspective (region_data point_selected) = ''PERSP''"
  by (simp_all add: point_selected_def piloting_sun_state idle_world_state)

lemma view_closed_state:
  "is_piloting view_closed"
  "area_type view_closed \<noteq> ''VIEW_3D''"
  "sv_view_perspective (previous_view_state view_closed) = Some ''ORTHO''"
  "scene view_closed ''lightpilot_active_light'' = Some ''Sun''"
  by (simp_all add: view_closed_def piloting_sun_state)

lemma piloting_point_state:
  "is_piloting piloting_point"
  "area_type piloting_point = ''VIEW_3D''"
  "objects piloting_point ''Point'' = Some point_light"
  "view_matrix (region_data piloting_point) = ((1, 0, 0, 1), (0, 1, 0, 2), (0, 0, 1, 3), (0, 0, 0, 1))"
  unfolding piloting_point_def
  by (simp_all add: invoke_found [OF idle_world_state(2) idle_world_state(4)] idle_world_state)
     (simp add: idle_world_def)

lemma invoke_snapshot:
  assumes "objects s lo = Some l" and "area_type s = ''VIEW_3D''"
  shows "area_type (fst (invoke M lo s)) = ''VIEW_3D''"
    and "previous_view_state (fst (invoke M lo s)) =
      \<lparr>sv_view_location = Some (view_location (region_data s)),
       sv_view_rotation = Some (view_rotation (region_data s)),
       sv_view_distance = Some (view_distance (region_data s)),
       sv_view_perspective = Some (view_perspective (region_data s)),
       sv_use_local_camera = Some (use_local_camera (space_data s)),
       sv_camera = Some (camera (space_data s))\<rparr>"
  by (simp_all add: invoke_found [OF assms] assms(2) capture_view_state_def)

lemma shot_bound_state:
  "objects shot_bound ''Sun'' = Some sun_light"
  "area_type shot_bound = ''VIEW_3D''"
  "camera (space_data shot_bound) = Some ''Shot''"
  "use_local_camera (space_data shot_bound) = True"
  "scene_camera shot_bound = Some ''Camera''"
  "view_perspective (region_data shot_bound) = ''ORTHO''"
  by (simp_all add: shot_bound_def idle_world_state) (simp_all add: idle_world_def)

section \<open>A tick after the light has gone\<close>

text \<open>
  Claim C1, as the code has it. A light that has gone from the scene is no reason for
  \<open>modal\<close> to end the session. In an active session in a 3D view whose light no longer
  exists, a tick with an event other than an escape press runs no \<open>cleanup\<close>: it changes
  nothing and returns \<^verbatim>\<open>{'PASS_THROUGH'}\<close>, so the session keeps running and the saved
  snapshot stays.
\<close>

theorem tick_light_gone:
  assumes "is_piloting s" and "area_type s = ''VIEW_3D''" and "objects s lo = None"
    and "\<not> (event_type ev = ''ESC'' \<and> event_value ev = ''PRESS'')"
  shows "modal M lo s ev = (s, Returned PASS_THROUGH) \<and> modal M lo s ev \<noteq> cleanup s"
  using modal_light_gone [OF assms(1-3)] cleanup_neq_pass_through [of s s]
  by simp

theorem tick_light_gone_witness:
  "is_piloting sun_deleted \<and> area_type sun_deleted = ''VIEW_3D'' \<and>
   objects sun_deleted ''Sun'' = None \<and>
   \<not> (event_type mouse_move = ''ESC'' \<and> event_value mouse_move = ''PRESS'') \<and>
   modal stub_mathutils ''Sun'' sun_deleted mouse_move = (sun_deleted, Returned PASS_THROUGH) \<and>
   modal stub_mathutils ''Sun'' sun_deleted mouse_move \<noteq> cleanup sun_deleted"
proof -
  have ev: "\<not> (event_type mouse_move = ''ESC'' \<and> event_value mouse_move = ''PRESS'')"
    by (simp add: mouse_move_def)
  note t = tick_light_gone [OF sun_deleted_state(1-3) ev, of stub_mathutils]
  show ?thesis
    using t ev sun_deleted_state(1-3) by blast
qed

theorem tick_light_gone_keeps_running:
  "is_piloting sun_deleted \<and> objects sun_deleted ''Sun'' = None \<and>
   modal stub_mathutils ''Sun'' sun_deleted mouse_move = (sun_deleted, Returned PASS_THROUGH) \<and>
   modal stub_mathutils ''Sun'' sun_deleted mouse_move \<noteq> cleanup sun_deleted \<and>
   previous_view_state sun_deleted \<noteq> empty_view_state"
proof -
  have "modal stub_mathutils ''Sun'' sun_deleted mouse_move = (sun_deleted, Returned PASS_THROUGH)"
    by (rule modal_light_gone) (rule sun_deleted_state)+
  moreover have "cleanup sun_deleted \<noteq> (sun_deleted, Returned PASS_THROUGH)"
    by (rule cleanup_neq_pass_through)
  ultimately show ?thesis
    by (simp add: sun_deleted_state)
qed

section \<open>Start during a session\<close>

text \<open>
  Claim C2. \<^verbatim>\<open>LIGHTPILOT_OT_pilot_light.poll\<close> asks only for a selected light and
  \<open>invoke\<close> has no test of the active flag. With a session active in a 3D view and a light
  selected, Start is available and runs: it overwrites the saved snapshot with the view as
  it is now, moves the target reference to the selected light and adds a second modal
  handler. Only the panel holds the button back while a session is active
  (\<open>panel_hides_pilot_while_piloting\<close>).
\<close>

theorem second_start_not_rejected:
  assumes "is_piloting s" and "area_type s = ''VIEW_3D''"
    and "context_object s = Some ob" and "obj_type ob = ''LIGHT''"
    and "objects s (name ob) = Some l"
  shows "pilot_light_poll s \<and>
         pilot_light M s = Some (fst (invoke M (name ob) s), Returned FINISHED) \<and>
         piloted_light (fst (invoke M (name ob) s)) = Some (name ob) \<and>
         previous_view_state (fst (invoke M (name ob) s)) =
           capture_view_state (region_data s) (space_data s) \<and>
         modal_handlers (fst (invoke M (name ob) s)) = modal_handlers s @ [name ob]"
  using assms(3,4)
  by (simp add: pilot_light_def pilot_light_poll_def pilot_light_execute_def
      invoke_found [OF assms(5) assms(2)])

theorem second_start_not_rejected_witness:
  "is_piloting point_selected \<and> area_type point_selected = ''VIEW_3D'' \<and>
   piloted_light point_selected = Some ''Sun'' \<and>
   context_object point_selected = Some point_light \<and> obj_type point_light = ''LIGHT'' \<and>
   objects point_selected (name point_light) = Some point_light \<and>
   pilot_light_poll point_selected \<and>
   pilot_light stub_mathutils point_selected =
     Some (fst (invoke stub_mathutils ''Point'' point_selected), Returned FINISHED) \<and>
   piloted_light (fst (invoke stub_mathutils ''Point'' point_selected)) = Some ''Point'' \<and>
   sv_view_perspective (previous_view_state point_selected) = Some ''ORTHO'' \<and>
   sv_view_perspective (previous_view_state (fst (invoke stub_mathutils ''Point'' point_selected)))
     = Some ''PERSP'' \<and>
   modal_handlers (fst (invoke stub_mathutils ''Point'' point_selected)) = [''Sun'', ''Point'']"
proof -
  have n: "name point_light = ''Point''" and t: "obj_type point_light = ''LIGHT''"
    by (simp_all add: point_light_def)
  have p: "objects point_selected (name point_light) = Some point_light"
    by (simp add: n point_selected_state)
  show ?thesis
    using second_start_not_rejected [OF point_selected_state(1) point_selected_state(2)
        point_selected_state(4) t p, of stub_mathutils]
    by (simp add: n t point_selected_state capture_view_state_def)
qed

section \<open>Start, then Stop\<close>

text \<open>
  Claim C3, as the code has it. In a 3D view, Start on a light that exists followed at once
  by Stop (\<open>cleanup\<close>) returns \<^verbatim>\<open>{'FINISHED'}\<close>, puts back the pivot location, the rotation,
  the distance and the projection mode (with the view matrix, which is never written, the
  whole \<open>region_data\<close>) and the local-camera flag, and clears the snapshot. The bound
  camera comes back where one was bound before Start. Where none was, it does not: the
  write of \<^verbatim>\<open>use_local_camera\<close> in Start binds the camera of the scene, and Stop skips a
  captured camera of \<^verbatim>\<open>None\<close> (line 106), so the view is left with the camera of the scene.
\<close>

theorem start_stop_round_trip:
  assumes "objects s lo = Some l" and "area_type s = ''VIEW_3D''"
  shows "snd (cleanup (fst (invoke M lo s))) = Returned FINISHED \<and>
         region_data (fst (cleanup (fst (invoke M lo s)))) = region_data s \<and>
         use_local_camera (space_data (fst (cleanup (fst (invoke M lo s))))) =
           use_local_camera (space_data s) \<and>
         camera (space_data (fst (cleanup (fst (invoke M lo s))))) =
           (case camera (space_data s) of Some c \<Rightarrow> Some c | None \<Rightarrow> scene_camera s) \<and>
         previous_view_state (fst (cleanup (fst (invoke M lo s)))) = empty_view_state"
  unfolding cleanup_full [OF invoke_snapshot [OF assms]]
  by (cases "camera (space_data s)") (simp_all add: invoke_found [OF assms])

theorem start_stop_round_trip_witness:
  "objects shot_bound ''Sun'' = Some sun_light \<and> area_type shot_bound = ''VIEW_3D'' \<and>
   camera (space_data (fst (invoke stub_mathutils ''Sun'' shot_bound))) = Some ''Camera'' \<and>
   view_perspective (region_data (fst (invoke stub_mathutils ''Sun'' shot_bound))) = ''PERSP'' \<and>
   region_data (fst (cleanup (fst (invoke stub_mathutils ''Sun'' shot_bound)))) =
     region_data shot_bound \<and>
   view_perspective (region_data shot_bound) = ''ORTHO'' \<and>
   use_local_camera (space_data (fst (cleanup (fst (invoke stub_mathutils ''Sun'' shot_bound))))) \<and>
   camera (space_data (fst (cleanup (fst (invoke stub_mathutils ''Sun'' shot_bound))))) =
     Some ''Shot''"
proof -
  note h = shot_bound_state(1,2)
  have "camera (space_data (fst (invoke stub_mathutils ''Sun'' shot_bound))) = Some ''Camera''"
    and "view_perspective (region_data (fst (invoke stub_mathutils ''Sun'' shot_bound))) = ''PERSP''"
    by (simp_all add: invoke_found [OF h] shot_bound_state)
  with start_stop_round_trip [OF h, of stub_mathutils] show ?thesis
    by (simp add: shot_bound_state)
qed

theorem start_stop_loses_unbound_camera:
  "objects idle_world ''Sun'' = Some sun_light \<and> area_type idle_world = ''VIEW_3D'' \<and>
   camera (space_data idle_world) = None \<and>
   snd (cleanup (fst (invoke stub_mathutils ''Sun'' idle_world))) = Returned FINISHED \<and>
   camera (space_data (fst (cleanup (fst (invoke stub_mathutils ''Sun'' idle_world))))) =
     Some ''Camera''"
proof -
  note h = idle_world_state(1,4)
  have "camera (space_data idle_world) = None" and "use_local_camera (space_data idle_world)"
    and "scene_camera idle_world = Some ''Camera''"
    by (simp_all add: idle_world_def)
  then show ?thesis
    unfolding cleanup_full [OF invoke_snapshot [OF h]]
    by (simp add: invoke_found [OF h] idle_world_state)
qed

section \<open>Stop outside a 3D view\<close>

text \<open>
  Claim C4. \<open>modal\<close> sends a session whose area is no longer a 3D view to \<open>cleanup\<close>
  (line 39), and there \<open>restore_view_state\<close> writes through \<^verbatim>\<open>context.region_data\<close>
  (line 103), which is \<^verbatim>\<open>None\<close>: Stop raises \<^verbatim>\<open>AttributeError\<close>. The active flag and the
  target reference are cleared before that; the snapshot and the scene's flag stay. A second
  Stop finds the snapshot still there and raises in the same way. Inside a 3D view Stop is
  idempotent (\<open>cleanup_twice_in_view\<close>).
\<close>

theorem cleanup_raises_outside_view:
  assumes "area_type s \<noteq> ''VIEW_3D''" and "sv_view_perspective (previous_view_state s) = Some p"
  shows "cleanup s = (s\<lparr>is_piloting := False, piloted_light := None\<rparr>, Raised AttributeError) \<and>
         cleanup (fst (cleanup s)) =
           (s\<lparr>is_piloting := False, piloted_light := None\<rparr>, Raised AttributeError)"
proof -
  let ?s1 = "s\<lparr>is_piloting := False, piloted_light := None\<rparr>"
  have 1: "cleanup s = (?s1, Raised AttributeError)"
    by (rule cleanup_outside [OF assms])
  have "area_type ?s1 \<noteq> ''VIEW_3D''" and "sv_view_perspective (previous_view_state ?s1) = Some p"
    using assms by simp_all
  from cleanup_outside [OF this] have "cleanup ?s1 = (?s1, Raised AttributeError)"
    by simp
  with 1 show ?thesis by simp
qed

theorem cleanup_raises_outside_view_witness:
  "is_piloting view_closed \<and> area_type view_closed \<noteq> ''VIEW_3D'' \<and>
   sv_view_perspective (previous_view_state view_closed) = Some ''ORTHO'' \<and>
   modal stub_mathutils ''Sun'' view_closed mouse_move = cleanup view_closed \<and>
   snd (cleanup view_closed) = Raised AttributeError \<and>
   snd (cleanup (fst (cleanup view_closed))) = Raised AttributeError \<and>
   sv_view_perspective (previous_view_state (fst (cleanup (fst (cleanup view_closed))))) =
     Some ''ORTHO'' \<and>
   scene (fst (cleanup (fst (cleanup view_closed)))) ''lightpilot_active_light'' = Some ''Sun''"
proof -
  let ?s1 = "view_closed\<lparr>is_piloting := False, piloted_light := None\<rparr>"
  note t = cleanup_raises_outside_view [OF view_closed_state(2,3)]
  from t have c1: "cleanup view_closed = (?s1, Raised AttributeError)"
    by (rule conjunct1)
  from t have c2: "cleanup (fst (cleanup view_closed)) = (?s1, Raised AttributeError)"
    by (rule conjunct2)
  have m: "modal stub_mathutils ''Sun'' view_closed mouse_move = cleanup view_closed"
    by (rule modal_stopped) (simp add: view_closed_state)
  have "snd (cleanup (fst (cleanup view_closed))) = Raised AttributeError"
    and "sv_view_perspective (previous_view_state (fst (cleanup (fst (cleanup view_closed))))) =
      Some ''ORTHO''"
    and "scene (fst (cleanup (fst (cleanup view_closed)))) ''lightpilot_active_light'' = Some ''Sun''"
    unfolding c2 by (simp_all add: view_closed_state)
  moreover have "snd (cleanup view_closed) = Raised AttributeError"
    unfolding c1 by simp
  ultimately show ?thesis
    using m by (simp add: view_closed_state)
qed

section \<open>The rotation Start gives the view\<close>

text \<open>
  Claim C5. For a light of kind SUN, SPOT or AREA, Start in a 3D view sets the rotation of
  the view to \<^verbatim>\<open>to_track_quat('-Z', 'Y')\<close> of the light's forward vector, the normalized
  image of \<open>(0, 0, -1)\<close> under the rotation of the light's world matrix. Where the tracking
  quaternion of \<^verbatim>\<open>mathutils\<close> turns \<open>(0, 0, -1)\<close> onto the vector it was given (its
  contract, taken at this vector, with floats read as reals), the forward axis of the view,
  the image of \<open>(0, 0, -1)\<close> under the view's rotation, is that forward vector.
\<close>

theorem start_view_forward_axis:
  assumes "objects s lo = Some l" and "area_type s = ''VIEW_3D''"
    and "data_type l \<in> set [''SUN'', ''SPOT'', ''AREA'']"
    and "quat_rotate M (to_track_quat M (light_forward M l) ''-Z'' ''Y'') (0, 0, - 1) =
           light_forward M l"
  shows "light_forward M l =
           normalized M (quat_rotate M (matrix_to_quaternion M (matrix_world l)) (0, 0, - 1)) \<and>
         view_rotation (region_data (fst (invoke M lo s))) =
           to_track_quat M (light_forward M l) ''-Z'' ''Y'' \<and>
         quat_rotate M (view_rotation (region_data (fst (invoke M lo s)))) (0, 0, - 1) =
           normalized M (quat_rotate M (matrix_to_quaternion M (matrix_world l)) (0, 0, - 1))"
proof -
  have "view_rotation (region_data (fst (invoke M lo s))) =
          to_track_quat M (light_forward M l) ''-Z'' ''Y''"
    using assms(3) by (simp add: invoke_found [OF assms(1,2)] start_rotation_def is_directional_def)
  with assms(4) show ?thesis
    by (simp add: light_forward_def)
qed

theorem start_view_forward_axis_witness:
  "objects idle_world ''Sun'' = Some sun_light \<and> area_type idle_world = ''VIEW_3D'' \<and>
   data_type sun_light \<in> set [''SUN'', ''SPOT'', ''AREA''] \<and>
   light_forward stub_mathutils sun_light = (0, 0, - 1) \<and>
   view_rotation (region_data (fst (invoke stub_mathutils ''Sun'' idle_world))) = (1, 0, 0, 0) \<and>
   quat_rotate stub_mathutils
     (view_rotation (region_data (fst (invoke stub_mathutils ''Sun'' idle_world)))) (0, 0, - 1) =
     (0, 0, - 1)"
proof -
  have k: "data_type sun_light \<in> set [''SUN'', ''SPOT'', ''AREA'']"
    by (simp add: sun_light_def)
  have f: "light_forward stub_mathutils sun_light = (0, 0, - 1)"
    by (simp add: light_forward_def stub_mathutils_def)
  have c: "quat_rotate stub_mathutils
      (to_track_quat stub_mathutils (light_forward stub_mathutils sun_light) ''-Z'' ''Y'') (0, 0, - 1) =
      light_forward stub_mathutils sun_light"
    unfolding f by (simp add: stub_mathutils_def)
  have t: "to_track_quat stub_mathutils (0, 0, - 1) ''-Z'' ''Y'' = (1, 0, 0, 0)"
    and q: "quat_rotate stub_mathutils (1, 0, 0, 0) (0, 0, - 1) = (0, 0, - 1)"
    by (simp_all add: stub_mathutils_def)
  from start_view_forward_axis [OF idle_world_state(1,4) k c] k f t q show ?thesis
    by (simp add: idle_world_state)
qed

section \<open>Start, then the first tick\<close>

text \<open>
  Claim C6. Start on a light that exists, in a 3D view, returns \<^verbatim>\<open>{'RUNNING_MODAL'}\<close> and
  leaves the pivot of the view at the light's location, the projection perspective, the
  local camera off and the view distance 0.001. The first tick after it, on whatever view
  matrix the host has drawn by then, puts the light at the translation of the inverted
  view matrix, the viewer's eye.
\<close>

theorem start_then_first_tick:
  assumes "objects s lo = Some l" and "area_type s = ''VIEW_3D''"
  shows "snd (invoke M lo s) = Returned RUNNING_MODAL \<and>
         view_location (region_data (fst (invoke M lo s))) = location l \<and>
         view_perspective (region_data (fst (invoke M lo s))) = ''PERSP'' \<and>
         use_local_camera (space_data (fst (invoke M lo s))) = False \<and>
         view_distance (region_data (fst (invoke M lo s))) = 1 / 1000 \<and>
         (\<exists>l'. objects (fst (modal M lo (host_redraw vm (fst (invoke M lo s))) ev)) lo = Some l' \<and>
               location l' = translation (inverted M vm))"
proof -
  let ?t = "host_redraw vm (fst (invoke M lo s))"
  have "is_piloting ?t" and "area_type ?t = ''VIEW_3D''" and "objects ?t lo = Some l"
    by (simp_all add: host_redraw_state invoke_found [OF assms] assms)
  then have "objects (fst (modal M lo ?t ev)) lo = Some (fst (sync_light M (region_data ?t) l))"
    by (simp add: modal_running)
  moreover have "location (fst (sync_light M (region_data ?t) l)) = translation (inverted M vm)"
    by (simp add: sync_light_location host_redraw_state)
  ultimately show ?thesis
    by (simp add: invoke_found [OF assms])
qed

theorem start_then_first_tick_witness:
  "objects idle_world ''Sun'' = Some sun_light \<and> area_type idle_world = ''VIEW_3D'' \<and>
   snd (invoke stub_mathutils ''Sun'' idle_world) = Returned RUNNING_MODAL \<and>
   view_location (region_data piloting_sun) = (4, 1, 6) \<and>
   view_perspective (region_data piloting_sun) = ''PERSP'' \<and>
   use_local_camera (space_data piloting_sun) = False \<and>
   view_distance (region_data piloting_sun) = 1 / 1000 \<and>
   (\<exists>l'. objects (fst (modal stub_mathutils ''Sun''
            (host_redraw ((1, 0, 0, 1), (0, 1, 0, 2), (0, 0, 1, 3), (0, 0, 0, 1)) piloting_sun)
            mouse_move)) ''Sun'' = Some l' \<and>
         location l' = (1, 2, 3))"
proof -
  have "location sun_light = (4, 1, 6)"
    by (simp add: sun_light_def)
  moreover have "translation (inverted stub_mathutils ((1, 0, 0, 1), (0, 1, 0, 2), (0, 0, 1, 3), (0, 0, 0, 1)))
      = (1, 2, 3)"
    by (simp add: stub_mathutils_def)
  ultimately show ?thesis
    using start_then_first_tick [OF idle_world_state(1) idle_world_state(4), of stub_mathutils
        "((1, 0, 0, 1), (0, 1, 0, 2), (0, 0, 1, 3), (0, 0, 0, 1))" mouse_move]
    by (simp add: piloting_sun_def idle_world_state)
qed

section \<open>A tick on a point light\<close>

text \<open>
  Claim C7. For a light whose kind is none of SUN, SPOT and AREA (a point light), no tick
  writes \<open>rotation_quaternion\<close> or \<open>rotation_euler\<close>: after \<open>modal\<close> the light differs
  from what it was in its location at most.
\<close>

theorem tick_point_light:
  assumes "objects s lo = Some l" and "data_type l \<notin> set [''SUN'', ''SPOT'', ''AREA'']"
  shows "\<exists>l'. objects (fst (modal M lo s ev)) lo = Some l' \<and>
              rotation_quaternion l' = rotation_quaternion l \<and>
              rotation_euler l' = rotation_euler l \<and>
              l' = l\<lparr>location := location l'\<rparr>"
proof (cases "is_piloting s \<and> area_type s = ''VIEW_3D''")
  case True
  then show ?thesis
    by (simp add: modal_running [OF _ _ assms(1)] sync_light_point [OF assms(2)])
next
  case False
  then have "modal M lo s ev = cleanup s"
    by (intro modal_stopped) simp
  then show ?thesis
    by (simp add: cleanup_frame assms(1))
qed

theorem tick_point_light_witness:
  "objects piloting_point ''Point'' = Some point_light \<and>
   data_type point_light \<notin> set [''SUN'', ''SPOT'', ''AREA''] \<and>
   (\<exists>l'. objects (fst (modal stub_mathutils ''Point'' piloting_point mouse_move)) ''Point'' = Some l' \<and>
         rotation_quaternion l' = (0, 1, 0, 0) \<and>
         rotation_euler l' = ((0, 0, 0), ''XYZ'') \<and>
         l' = point_light\<lparr>location := location l'\<rparr>)"
proof -
  have h1: "objects piloting_point ''Point'' = Some point_light"
    by (simp add: piloting_point_state)
  have h2: "data_type point_light \<notin> set [''SUN'', ''SPOT'', ''AREA'']"
    by (simp add: point_light_def)
  have "rotation_quaternion point_light = (0, 1, 0, 0)"
    and "rotation_euler point_light = ((0, 0, 0), ''XYZ'')"
    by (simp_all add: point_light_def)
  with tick_point_light [OF h1 h2, of stub_mathutils mouse_move] h1 h2
  show ?thesis by simp
qed

section \<open>The Exit command\<close>

text \<open>
  Claim C8. The Exit command is available when a session is active, and all it does is
  clear the active flag: the view and the snapshot stay as they are. The next tick in the
  3D view, whatever its event, sees the cleared flag and performs Stop: it returns
  \<^verbatim>\<open>{'FINISHED'}\<close>, clears the target reference, writes the snapshot that Start took back
  to the view, clears the snapshot and the scene's flag and reports completion. Nothing
  else changes.
\<close>

theorem exit_then_tick:
  assumes "area_type s = ''VIEW_3D''"
    and "previous_view_state s =
      \<lparr>sv_view_location = Some vl, sv_view_rotation = Some vr, sv_view_distance = Some vd,
       sv_view_perspective = Some vp, sv_use_local_camera = Some ulc, sv_camera = Some cam\<rparr>"
  shows "exit_pilot_poll s = is_piloting s \<and>
         exit_pilot_execute s = (s\<lparr>is_piloting := False\<rparr>, Returned FINISHED) \<and>
         modal M lo (fst (exit_pilot_execute s)) ev =
           (s\<lparr>is_piloting := False, piloted_light := None,
              region_data := (region_data s)\<lparr>view_perspective := vp, view_location := vl,
                 view_rotation := vr, view_distance := vd\<rparr>,
              space_data := (space_data s)\<lparr>use_local_camera := ulc,
                 camera := (case cam of Some c \<Rightarrow> Some c
                            | None \<Rightarrow> if ulc then camera (space_data s) else scene_camera s)\<rparr>,
              previous_view_state := empty_view_state,
              scene := (scene s)(''lightpilot_active_light'' := None),
              reports := reports s @ [(''INFO'', ''Exited light pilot mode'')]\<rparr>,
            Returned FINISHED)"
proof -
  let ?t = "s\<lparr>is_piloting := False\<rparr>"
  have "modal M lo ?t ev = cleanup ?t"
    by (rule modal_stopped) simp
  moreover have "area_type ?t = ''VIEW_3D''" and "previous_view_state ?t =
      \<lparr>sv_view_location = Some vl, sv_view_rotation = Some vr, sv_view_distance = Some vd,
       sv_view_perspective = Some vp, sv_use_local_camera = Some ulc, sv_camera = Some cam\<rparr>"
    using assms by simp_all
  note cleanup_full [OF this]
  ultimately show ?thesis
    by (cases cam) (simp_all add: exit_pilot_poll_def exit_pilot_execute_def)
qed

theorem exit_then_tick_witness:
  "exit_pilot_poll piloting_sun \<and> area_type piloting_sun = ''VIEW_3D'' \<and>
   view_perspective (region_data (fst (exit_pilot_execute piloting_sun))) = ''PERSP'' \<and>
   snd (modal stub_mathutils ''Sun'' (fst (exit_pilot_execute piloting_sun)) mouse_move) =
     Returned FINISHED \<and>
   region_data (fst (modal stub_mathutils ''Sun'' (fst (exit_pilot_execute piloting_sun)) mouse_move)) =
     region_data idle_world \<and>
   view_perspective (region_data idle_world) = ''ORTHO'' \<and>
   use_local_camera
     (space_data (fst (modal stub_mathutils ''Sun'' (fst (exit_pilot_execute piloting_sun)) mouse_move))) \<and>
   previous_view_state
     (fst (modal stub_mathutils ''Sun'' (fst (exit_pilot_execute piloting_sun)) mouse_move)) =
     empty_view_state \<and>
   \<not> is_piloting (fst (modal stub_mathutils ''Sun'' (fst (exit_pilot_execute piloting_sun)) mouse_move))"
proof -
  note t = exit_then_tick [OF piloting_sun_state(2) piloting_sun_state(6), of stub_mathutils
      "''Sun''" mouse_move]
  note m = conjunct2 [OF conjunct2 [OF t]]
  have r: "(region_data piloting_sun)\<lparr>view_perspective := ''ORTHO'', view_location := (0, 0, 0),
      view_rotation := (0, 0, 0, 1), view_distance := 10\<rparr> = region_data idle_world"
    by (simp add: piloting_sun_eq) (simp add: idle_world_def)
  have "view_perspective (region_data idle_world) = ''ORTHO''"
    by (simp add: idle_world_def)
  moreover have "view_perspective (region_data (fst (exit_pilot_execute piloting_sun))) = ''PERSP''"
    by (simp add: exit_pilot_execute_def piloting_sun_state)
  moreover have "exit_pilot_poll piloting_sun"
    by (simp add: exit_pilot_poll_def piloting_sun_state)
  ultimately show ?thesis
    unfolding m by (simp add: r piloting_sun_state)
qed

section \<open>Escape\<close>

text \<open>
  Claim C9. The escape test of \<open>modal\<close> (line 70) sits inside the branch that has found
  the light. In an active session in a 3D view whose light no longer exists, a tick with
  an escape press therefore does not run \<open>cleanup\<close>: it changes nothing and returns
  \<^verbatim>\<open>{'PASS_THROUGH'}\<close>. Where the light is found, \<open>modal_esc_found\<close> gives the
  \<open>cleanup\<close> the claim expects.
\<close>

theorem esc_light_gone:
  assumes "is_piloting s" and "area_type s = ''VIEW_3D''" and "objects s lo = None"
    and "event_type ev = ''ESC''" and "event_value ev = ''PRESS''"
  shows "modal M lo s ev = (s, Returned PASS_THROUGH) \<and> modal M lo s ev \<noteq> cleanup s"
  using modal_light_gone [OF assms(1-3)] cleanup_neq_pass_through [of s s]
  by simp

theorem esc_light_gone_witness:
  "is_piloting sun_deleted \<and> area_type sun_deleted = ''VIEW_3D'' \<and>
   objects sun_deleted ''Sun'' = None \<and>
   event_type esc_press = ''ESC'' \<and> event_value esc_press = ''PRESS'' \<and>
   modal stub_mathutils ''Sun'' sun_deleted esc_press = (sun_deleted, Returned PASS_THROUGH) \<and>
   snd (cleanup sun_deleted) = Returned FINISHED \<and>
   previous_view_state sun_deleted \<noteq> empty_view_state"
proof -
  have t: "event_type esc_press = ''ESC''" and v: "event_value esc_press = ''PRESS''"
    by (simp_all add: esc_press_def)
  from esc_light_gone [OF sun_deleted_state(1-3) t v, of stub_mathutils] t v
  show ?thesis by (simp add: sun_deleted_state cleanup_in_view)
qed

section \<open>Start on a light that is not there\<close>

text \<open>
  Claim C10. \<open>invoke\<close> with a name that is not in \<^verbatim>\<open>bpy.data.objects\<close> reports the error
  notice, returns \<^verbatim>\<open>{'CANCELLED'}\<close> and changes nothing else: no snapshot is captured, the
  active flag and the target reference, the viewport and the scene stay as they were.
\<close>

theorem invoke_missing_light:
  assumes "objects s lo = None"
  shows "invoke M lo s =
           (s\<lparr>reports := reports s @ [(''ERROR'', ''Could not find the specified light'')]\<rparr>,
            Returned CANCELLED)"
  using assms by (simp add: invoke_def report_def)

theorem invoke_missing_light_witness:
  "objects idle_world ''Moon'' = None \<and>
   invoke stub_mathutils ''Moon'' idle_world =
     (idle_world\<lparr>reports := [(''ERROR'', ''Could not find the specified light'')]\<rparr>,
      Returned CANCELLED)"
  using invoke_missing_light [OF idle_world_state(3), of stub_mathutils]
  by (simp add: idle_world_def)

end
